theory Spec2Isabelle
  imports Complex_Main
begin

section \<open>Distance-sensor pose reset (distance\_reset.cpp)\<close>

text \<open>
  A shallow embedding of the four functions of \<^verbatim>\<open>distance_reset.cpp\<close>:
  \<^verbatim>\<open>resetPositionAndHeadingBack\<close>, \<^verbatim>\<open>resetPositionLeft\<close>,
  \<^verbatim>\<open>resetPositionRight\<close> and \<^verbatim>\<open>driveUntilDistance\<close>.

  Numbers. A C++ \<^verbatim>\<open>double\<close> is modelled by a \<^typ>\<open>real\<close>: rounding of floating-point
  arithmetic is not modelled, every statement below is about exact real arithmetic.
  A C++ \<^verbatim>\<open>int\<close> is an \<^typ>\<open>int\<close>; where the source adds or multiplies
  \<^verbatim>\<open>int\<close>s the 32-bit two's-complement wrap-around is written out (\<open>wrap32\<close>).
\<close>

subsection \<open>C and C++ arithmetic used by the source\<close>

definition wrap32 :: "int \<Rightarrow> int" where
  \<comment> \<open>the value of a 32-bit signed \<^verbatim>\<open>int\<close> after an operation whose exact result is \<open>v\<close>\<close>
  "wrap32 v = (v + 2147483648) mod 4294967296 - 2147483648"

definition trunc_toward_zero :: "real \<Rightarrow> int" where
  \<comment> \<open>the integer part of \<open>d\<close>: the fractional part is discarded\<close>
  "trunc_toward_zero d = (if 0 \<le> d then \<lfloor>d\<rfloor> else \<lceil>d\<rceil>)"

definition int_castable :: "real \<Rightarrow> bool" where
  \<comment> \<open>the integer part of \<open>d\<close> fits a 32-bit \<^verbatim>\<open>int\<close>, so that \<^verbatim>\<open>(int)d\<close> is defined\<close>
  "int_castable d = (- 2147483649 < d \<and> d < 2147483648)"

definition double_to_int :: "real \<Rightarrow> int" where
  \<comment> \<open>the cast \<^verbatim>\<open>(int)d\<close>: truncation toward zero when the integer part fits an
      \<^verbatim>\<open>int\<close>. Otherwise C++ leaves the cast undefined; the value here, \<^verbatim>\<open>INT_MIN\<close>, is
      the one the conversion delivers on common hardware, and every statement below
      that relates the result of the cast to the heading assumes \<open>int_castable\<close>\<close>
  "double_to_int d = (if int_castable d then trunc_toward_zero d else - 2147483648)"

definition c_mod :: "int \<Rightarrow> int \<Rightarrow> int" where
  \<comment> \<open>the operator \<^verbatim>\<open>%\<close> on \<^verbatim>\<open>int\<close>: the remainder takes the sign of the dividend\<close>
  "c_mod a b = sgn a * (\<bar>a\<bar> mod \<bar>b\<bar>)"

definition c_fmod :: "real \<Rightarrow> real \<Rightarrow> real" where
  \<comment> \<open>\<^verbatim>\<open>fmod(a, b)\<close>: \<open>a - n * b\<close> with \<open>n\<close> the quotient truncated toward zero\<close>
  "c_fmod a b = a - real_of_int (trunc_toward_zero (a / b)) * b"

definition c_round :: "real \<Rightarrow> real" where
  \<comment> \<open>\<^verbatim>\<open>round(d)\<close>: nearest integer, halfway cases away from zero\<close>
  "c_round d = (if 0 \<le> d then real_of_int \<lfloor>d + 1 / 2\<rfloor> else real_of_int \<lceil>d - 1 / 2\<rceil>)"

definition c_atan2 :: "real \<Rightarrow> real \<Rightarrow> real" where
  \<comment> \<open>\<^verbatim>\<open>atan2(y, x)\<close>: the angle of the point \<open>(x, y)\<close>, in \<open>(-pi, pi]\<close>\<close>
  "c_atan2 y x =
     (if 0 < x then arctan (y / x)
      else if x < 0 \<and> 0 \<le> y then arctan (y / x) + pi
      else if x < 0 \<and> y < 0 then arctan (y / x) - pi
      else if 0 < y then pi / 2
      else if y < 0 then - (pi / 2)
      else 0)"

definition M_PI :: real where
  "M_PI = pi"

definition PROS_ERR :: int where
  \<comment> \<open>the error value of the PROS library, \<^verbatim>\<open>INT32_MAX\<close>\<close>
  "PROS_ERR = 2147483647"

subsection \<open>The chassis and the other collaborators\<close>

text \<open>
  \<^verbatim>\<open>lemlib::Pose\<close> has the fields \<^verbatim>\<open>x\<close>, \<^verbatim>\<open>y\<close> and \<^verbatim>\<open>theta\<close>. The global
  \<^verbatim>\<open>chassis\<close> is passed explicitly: it holds the pose estimate, and, to state which
  calls a function makes, the list of the calls made on it so far. \<^verbatim>\<open>printf\<close> appends
  to the diagnostic output (a diagnostic records which message it is and the values
  handed to the format string), \<^verbatim>\<open>pros::delay\<close> advances a clock.
\<close>

record Pose =
  pose_x :: real
  pose_y :: real
  pose_theta :: real

datatype brake_mode = E_MOTOR_BRAKE_COAST | E_MOTOR_BRAKE_BRAKE | E_MOTOR_BRAKE_HOLD

datatype chassis_call =
    GetPose
  | SetPose real real real
  | Tank int int bool
  | SetBrakeMode brake_mode

datatype diagnostic =
    Invalid_back_sensor_readings real real
  | Invalid_left_sensor_reading real
  | Invalid_right_sensor_reading real
  | Reset_message real real real

record robot =
  pose :: Pose
  calls :: "chassis_call list"
  printed :: "diagnostic list"
  clock :: int

definition getPose :: "robot \<Rightarrow> Pose \<times> robot" where
  "getPose s = (pose s, s\<lparr>calls := calls s @ [GetPose]\<rparr>)"

definition setPose :: "real \<Rightarrow> real \<Rightarrow> real \<Rightarrow> robot \<Rightarrow> robot" where
  "setPose new_x new_y new_theta s =
     s\<lparr>pose := \<lparr>pose_x = new_x, pose_y = new_y, pose_theta = new_theta\<rparr>,
       calls := calls s @ [SetPose new_x new_y new_theta]\<rparr>"

definition tank :: "int \<Rightarrow> int \<Rightarrow> bool \<Rightarrow> robot \<Rightarrow> robot" where
  "tank left right disableDriveCurve s = s\<lparr>calls := calls s @ [Tank left right disableDriveCurve]\<rparr>"

definition setBrakeMode :: "brake_mode \<Rightarrow> robot \<Rightarrow> robot" where
  "setBrakeMode m s = s\<lparr>calls := calls s @ [SetBrakeMode m]\<rparr>"

definition printf :: "diagnostic \<Rightarrow> robot \<Rightarrow> robot" where
  "printf d s = s\<lparr>printed := printed s @ [d]\<rparr>"

definition delay :: "int \<Rightarrow> robot \<Rightarrow> robot" where
  "delay ms s = s\<lparr>clock := clock s + ms\<rparr>"

subsection \<open>Wall classification\<close>

definition normalize_headingDeg :: "real \<Rightarrow> int" where
  \<comment> \<open>\<^verbatim>\<open>((int)d % 360 + 360) % 360\<close>, lines 73, 147 and 196\<close>
  "normalize_headingDeg d = c_mod (c_mod (double_to_int d) 360 + 360) 360"

definition back_wall :: "int \<Rightarrow> bool \<times> real \<times> real" where
  \<comment> \<open>lines 75 to 102: \<open>(resettingX, wallSign, expected_perpendicular_heading)\<close>\<close>
  "back_wall headingDeg =
     (if headingDeg \<ge> 315 \<or> headingDeg \<le> 45 then (False, 1, 180)
      else if headingDeg > 45 \<and> headingDeg \<le> 135 then (True, 1, 270)
      else if headingDeg > 135 \<and> headingDeg \<le> 225 then (False, -1, 0)
      else (True, -1, 90))"

definition left_wall :: "int \<Rightarrow> bool \<times> real" where
  \<comment> \<open>lines 158 to 164: \<open>(resettingX, wallSign)\<close>\<close>
  "left_wall headingDeg =
     (if headingDeg \<ge> 315 \<or> headingDeg \<le> 45 then (False, 1)
      else if headingDeg > 45 \<and> headingDeg \<le> 135 then (True, 1)
      else if headingDeg > 135 \<and> headingDeg \<le> 225 then (False, -1)
      else (True, -1))"

definition right_wall :: "int \<Rightarrow> bool \<times> real" where
  \<comment> \<open>lines 206 to 212: \<open>(resettingX, wallSign)\<close>\<close>
  "right_wall headingDeg =
     (if headingDeg \<ge> 315 \<or> headingDeg \<le> 45 then (False, 1)
      else if headingDeg > 45 \<and> headingDeg \<le> 135 then (True, 1)
      else if headingDeg > 135 \<and> headingDeg \<le> 225 then (False, -1)
      else (True, -1))"

subsection \<open>resetPositionAndHeadingBack\<close>

text \<open>
  The local variables of the function, computed from the two converted readings, the
  configuration and the pose read from the chassis.
\<close>

record back_locals =
  angle_to_wall_rad :: real
  angle_to_wall_deg :: real
  back_corrected_distance :: real
  back_headingDeg :: int
  back_resettingX :: bool
  back_wallSign :: real
  expected_perpendicular_heading :: real
  back_actualPos :: real
  corrected_heading :: real

definition back_compute :: "real \<Rightarrow> real \<Rightarrow> real \<Rightarrow> real \<Rightarrow> real \<Rightarrow> real \<Rightarrow> Pose \<Rightarrow> back_locals" where
  \<comment> \<open>lines 59 to 113\<close>
  "back_compute d_left d_right sensor_spacing left_offset right_offset field_half p =
     (let a_rad = c_atan2 (d_right - d_left) sensor_spacing;
          a_deg = a_rad * 180 / M_PI;
          avg_offset = (left_offset + right_offset) / 2;
          avg_reading = (d_left + d_right) / 2;
          corrected_distance = avg_reading * cos a_rad + avg_offset;
          back_heading_deg = pose_theta p + 180;
          headingDeg = normalize_headingDeg back_heading_deg;
          (resettingX, wallSign, expected) = back_wall headingDeg;
          actualPos = wallSign * (field_half - corrected_distance);
          heading = c_fmod (expected - a_deg + 360) 360
      in \<lparr>angle_to_wall_rad = a_rad, angle_to_wall_deg = a_deg,
          back_corrected_distance = corrected_distance, back_headingDeg = headingDeg,
          back_resettingX = resettingX, back_wallSign = wallSign,
          expected_perpendicular_heading = expected, back_actualPos = actualPos,
          corrected_heading = heading\<rparr>)"

definition resetPositionAndHeadingBack ::
    "int \<Rightarrow> int \<Rightarrow> real \<Rightarrow> real \<Rightarrow> real \<Rightarrow> real \<Rightarrow> robot \<Rightarrow> robot" where
  \<comment> \<open>\<open>back_left\<close> and \<open>back_right\<close> are the values the two calls of \<^verbatim>\<open>get()\<close> return (mm)\<close>
  "resetPositionAndHeadingBack back_left back_right sensor_spacing left_offset right_offset
       field_half s =
     (let d_left = real_of_int back_left / 25.4;
          d_right = real_of_int back_right / 25.4
      in if d_left < 0 \<or> d_left > 200 \<or> d_right < 0 \<or> d_right > 200
         then printf (Invalid_back_sensor_readings d_left d_right) s
         else
           (let (p, s1) = getPose s;
                l = back_compute d_left d_right sensor_spacing left_offset right_offset
                      field_half p;
                new_x = (if back_resettingX l then back_actualPos l else pose_x p);
                new_y = (if back_resettingX l then pose_y p else back_actualPos l);
                s2 = setPose new_x new_y (corrected_heading l) s1
            in printf (Reset_message (back_actualPos l) (corrected_heading l)
                         (angle_to_wall_deg l)) s2))"

subsection \<open>resetPositionLeft and resetPositionRight\<close>

record side_locals =
  side_headingDeg :: int
  angle_off_deg :: real
  side_corrected_distance :: real
  side_resettingX :: bool
  side_wallSign :: real
  side_actualPos :: real

definition left_compute :: "real \<Rightarrow> real \<Rightarrow> real \<Rightarrow> Pose \<Rightarrow> side_locals" where
  \<comment> \<open>lines 145 to 166\<close>
  "left_compute sensorReading sensor_offset field_half p =
     (let sensor_heading_deg = pose_theta p + 270;
          headingDeg = normalize_headingDeg sensor_heading_deg;
          nearest_perpendicular = c_round (sensor_heading_deg / 90) * 90;
          off_deg = sensor_heading_deg - nearest_perpendicular;
          angle_off_rad = off_deg * M_PI / 180;
          corrected_distance = sensorReading * cos angle_off_rad + sensor_offset;
          (resettingX, wallSign) = left_wall headingDeg;
          actualPos = wallSign * (field_half - corrected_distance)
      in \<lparr>side_headingDeg = headingDeg, angle_off_deg = off_deg,
          side_corrected_distance = corrected_distance, side_resettingX = resettingX,
          side_wallSign = wallSign, side_actualPos = actualPos\<rparr>)"

definition resetPositionLeft :: "int \<Rightarrow> real \<Rightarrow> real \<Rightarrow> robot \<Rightarrow> robot" where
  \<comment> \<open>\<open>sensor\<close> is the value \<^verbatim>\<open>sensor.get()\<close> returns (mm)\<close>
  "resetPositionLeft sensor sensor_offset field_half s =
     (let sensorReading = real_of_int sensor / 25.4
      in if sensorReading < 0 \<or> sensorReading > 200
         then printf (Invalid_left_sensor_reading sensorReading) s
         else
           (let (p, s1) = getPose s;
                l = left_compute sensorReading sensor_offset field_half p;
                new_x = (if side_resettingX l then side_actualPos l else pose_x p);
                new_y = (if side_resettingX l then pose_y p else side_actualPos l)
            in setPose new_x new_y (pose_theta p) s1))"

definition right_compute :: "real \<Rightarrow> real \<Rightarrow> real \<Rightarrow> Pose \<Rightarrow> side_locals" where
  \<comment> \<open>lines 194 to 214\<close>
  "right_compute sensorReading sensor_offset field_half p =
     (let sensor_heading_deg = pose_theta p + 90;
          headingDeg = normalize_headingDeg sensor_heading_deg;
          nearest_perpendicular = c_round (sensor_heading_deg / 90) * 90;
          off_deg = sensor_heading_deg - nearest_perpendicular;
          angle_off_rad = off_deg * M_PI / 180;
          corrected_distance = sensorReading * cos angle_off_rad + sensor_offset;
          (resettingX, wallSign) = right_wall headingDeg;
          actualPos = wallSign * (field_half - corrected_distance)
      in \<lparr>side_headingDeg = headingDeg, angle_off_deg = off_deg,
          side_corrected_distance = corrected_distance, side_resettingX = resettingX,
          side_wallSign = wallSign, side_actualPos = actualPos\<rparr>)"

definition resetPositionRight :: "int \<Rightarrow> real \<Rightarrow> real \<Rightarrow> robot \<Rightarrow> robot" where
  \<comment> \<open>\<open>sensor\<close> is the value \<^verbatim>\<open>sensor.get()\<close> returns (mm)\<close>
  "resetPositionRight sensor sensor_offset field_half s =
     (let sensorReading = real_of_int sensor / 25.4
      in if sensorReading < 0 \<or> sensorReading > 200
         then printf (Invalid_right_sensor_reading sensorReading) s
         else
           (let (p, s1) = getPose s;
                l = right_compute sensorReading sensor_offset field_half p;
                new_x = (if side_resettingX l then side_actualPos l else pose_x p);
                new_y = (if side_resettingX l then pose_y p else side_actualPos l)
            in setPose new_x new_y (pose_theta p) s1))"

subsection \<open>driveUntilDistance\<close>

text \<open>
  The sensor is read up to twice in an iteration, so it is a sequence: \<open>sensor k\<close> is
  the value the \<open>k\<close>-th call of \<^verbatim>\<open>sensor.get()\<close> returns (mm, or \<open>PROS_ERR\<close>), and the
  state of the loop counts the calls made. Besides the local \<^verbatim>\<open>elapsed\<close> the
  state counts the iterations begun, which the source does not store. The loop runs
  forever on some inputs, so it returns an option: \<open>None\<close> is a loop that never exits.
\<close>

datatype loop_exit = Break | Timeout

record poll_state =
  ps_robot :: robot
  elapsed :: int
  reads :: nat
  iterations :: nat

definition next_poll :: "poll_state \<Rightarrow> poll_state" where
  \<comment> \<open>lines 253 and 254: \<^verbatim>\<open>pros::delay(10); elapsed += 10;\<close>\<close>
  "next_poll st = st\<lparr>ps_robot := delay 10 (ps_robot st), elapsed := wrap32 (elapsed st + 10)\<rparr>"

partial_function (option) poll_loop ::
    "(nat \<Rightarrow> int) \<Rightarrow> real \<Rightarrow> int \<Rightarrow> poll_state \<Rightarrow> (loop_exit \<times> poll_state) option" where
  "poll_loop sensor threshold_in timeout_ms st =
     (if elapsed st < timeout_ms then
        (let st1 = st\<lparr>iterations := iterations st + 1\<rparr>;
             first_get = sensor (reads st1);
             st2 = st1\<lparr>reads := reads st1 + 1\<rparr>
         in if first_get \<noteq> PROS_ERR then
              (let reading = real_of_int (sensor (reads st2)) / 25.4;
                   st3 = st2\<lparr>reads := reads st2 + 1\<rparr>
               in if reading > 0 \<and> reading \<le> threshold_in then Some (Break, st3)
                  else poll_loop sensor threshold_in timeout_ms (next_poll st3))
            else poll_loop sensor threshold_in timeout_ms (next_poll st2))
      else Some (Timeout, st))"

declare poll_loop.simps [code]

definition driveUntilDistance_run ::
    "(nat \<Rightarrow> int) \<Rightarrow> real \<Rightarrow> int \<Rightarrow> bool \<Rightarrow> int \<Rightarrow> robot \<Rightarrow> (loop_exit \<times> poll_state) option" where
  \<comment> \<open>the whole body; the result keeps how the loop was left and the final locals\<close>
  "driveUntilDistance_run sensor threshold_in speed forwards timeout_ms s =
     (let direction = (if forwards then 1 else - 1);
          s1 = tank (wrap32 (direction * speed)) (wrap32 (direction * speed)) True s
      in case poll_loop sensor threshold_in timeout_ms
                \<lparr>ps_robot = s1, elapsed = 0, reads = 0, iterations = 0\<rparr> of
           None \<Rightarrow> None
         | Some (how, st) \<Rightarrow>
             Some (how, st\<lparr>ps_robot :=
                     tank 0 0 True (setBrakeMode E_MOTOR_BRAKE_HOLD (ps_robot st))\<rparr>))"

definition driveUntilDistance ::
    "(nat \<Rightarrow> int) \<Rightarrow> real \<Rightarrow> int \<Rightarrow> bool \<Rightarrow> int \<Rightarrow> robot \<Rightarrow> robot option" where
  "driveUntilDistance sensor threshold_in speed forwards timeout_ms s =
     map_option (\<lambda>r. ps_robot (snd r))
       (driveUntilDistance_run sensor threshold_in speed forwards timeout_ms s)"

section \<open>The vocabulary of the specification\<close>

text \<open>
  The four walls, the partition of the normalized effective heading (section 4.1 of the
  specification), the plausibility window of a reading (section 3) and the heading
  tables of the dual-sensor corrector. These follow the specification's words; the
  theorems compare them with the definitions above, which follow the source.
\<close>

datatype wall = TOP | RIGHT | BOTTOM | LEFT

definition spec_normalize :: "real \<Rightarrow> real" where
  \<comment> \<open>a real heading normalized to \<open>[0, 360)\<close>\<close>
  "spec_normalize h = h - 360 * real_of_int \<lfloor>h / 360\<rfloor>"

definition spec_classify :: "real \<Rightarrow> wall option" where
  "spec_classify n =
     (if (315 \<le> n \<and> n < 360) \<or> (0 \<le> n \<and> n \<le> 45) then Some TOP
      else if 45 < n \<and> n \<le> 135 then Some RIGHT
      else if 135 < n \<and> n \<le> 225 then Some BOTTOM
      else if 225 < n \<and> n < 315 then Some LEFT
      else None)"

fun wall_axis_sign :: "wall \<Rightarrow> bool \<times> real" where
  \<comment> \<open>axis X is \<open>resettingX = True\<close>, axis Y is \<open>resettingX = False\<close>\<close>
  "wall_axis_sign TOP = (False, 1)"
| "wall_axis_sign RIGHT = (True, 1)"
| "wall_axis_sign BOTTOM = (False, -1)"
| "wall_axis_sign LEFT = (True, -1)"

fun classified_wall :: "bool \<times> real \<Rightarrow> wall" where
  \<comment> \<open>the wall a pair \<open>(resettingX, wallSign)\<close> of the source stands for\<close>
  "classified_wall (resettingX, wallSign) =
     (if resettingX then (if 0 < wallSign then RIGHT else LEFT)
      else (if 0 < wallSign then TOP else BOTTOM))"

fun back_facing_direction :: "wall \<Rightarrow> int" where
  \<comment> \<open>the direction the back of the robot points to when it faces the wall squarely\<close>
  "back_facing_direction TOP = 0"
| "back_facing_direction RIGHT = 90"
| "back_facing_direction BOTTOM = 180"
| "back_facing_direction LEFT = 270"

fun spec_expected_heading :: "wall \<Rightarrow> real" where
  "spec_expected_heading TOP = 180"
| "spec_expected_heading RIGHT = 270"
| "spec_expected_heading BOTTOM = 0"
| "spec_expected_heading LEFT = 90"

definition plausible :: "real \<Rightarrow> bool" where
  \<comment> \<open>the plausibility window \<open>(0, 200]\<close> of a converted reading\<close>
  "plausible d = (0 < d \<and> d \<le> 200)"

section \<open>Sample inputs\<close>

definition robot_at :: "real \<Rightarrow> real \<Rightarrow> real \<Rightarrow> robot" where
  \<comment> \<open>a chassis with the given pose on which nothing has been called yet\<close>
  "robot_at px py h =
     \<lparr>pose = \<lparr>pose_x = px, pose_y = py, pose_theta = h\<rparr>, calls = [], printed = [], clock = 0\<rparr>"

definition steady_sensor :: "int \<Rightarrow> nat \<Rightarrow> int" where
  \<comment> \<open>a sensor whose every call of \<^verbatim>\<open>get()\<close> returns the same value\<close>
  "steady_sensor mm k = mm"

section \<open>Conditions on the polling loop\<close>

text \<open>
  What holds when the loop of \<^verbatim>\<open>driveUntilDistance\<close> started in state \<open>st\<close> is left
  with result \<open>r\<close>; the bound on its iterations; and the states in which, with a
  sensor that never sees an object and the largest \<^verbatim>\<open>int\<close> as timeout, it is never
  left.
\<close>

definition poll_post :: "(nat \<Rightarrow> int) \<Rightarrow> real \<Rightarrow> int \<Rightarrow> poll_state \<Rightarrow> loop_exit \<times> poll_state \<Rightarrow> bool" where
  "poll_post sensor thr timeout st r =
        (pose (ps_robot (snd r)) = pose (ps_robot st) \<and>
         calls (ps_robot (snd r)) = calls (ps_robot st) \<and>
         printed (ps_robot (snd r)) = printed (ps_robot st) \<and>
         (fst r = Break \<longrightarrow>
            2 \<le> reads (snd r) \<and> sensor (reads (snd r) - 2) \<noteq> PROS_ERR \<and>
            0 < real_of_int (sensor (reads (snd r) - 1)) / 25.4 \<and>
            real_of_int (sensor (reads (snd r) - 1)) / 25.4 \<le> thr \<and>
            elapsed (snd r) < timeout) \<and>
         (fst r = Timeout \<longrightarrow> timeout \<le> elapsed (snd r)))"

definition poll_bound :: "int \<Rightarrow> poll_state \<Rightarrow> loop_exit \<times> poll_state \<Rightarrow> bool" where
  "poll_bound timeout st r =
     (int (iterations (snd r)) \<le> int (iterations st) + max 0 ((timeout - elapsed st + 9) div 10) \<and>
      clock (ps_robot (snd r)) - clock (ps_robot st) = elapsed (snd r) - elapsed st \<and>
      10 dvd elapsed (snd r) \<and>
      (fst r = Timeout \<longrightarrow>
         int (iterations (snd r)) = int (iterations st) + max 0 ((timeout - elapsed st + 9) div 10) \<and>
         (elapsed (snd r) = elapsed st \<or> elapsed (snd r) < timeout + 10)))"

definition keeps_polling :: "(nat \<Rightarrow> int) \<Rightarrow> real \<Rightarrow> int \<Rightarrow> poll_state \<Rightarrow> bool" where
  "keeps_polling sensor thr timeout st =
     (sensor = steady_sensor 9999 \<and> thr = 3 \<and> timeout = 2147483647 \<and>
      even (elapsed st) \<and> elapsed st \<le> 2147483647)"

section \<open>Wall classification\<close>

lemma c_mod_360: "c_mod (c_mod a 360 + 360) 360 = a mod 360"
proof (cases "0 \<le> a")
  case True
  then have "c_mod a 360 = a mod 360" by (cases "a = 0") (simp_all add: c_mod_def)
  moreover have "0 \<le> a mod 360" "a mod 360 < 360" by simp_all
  ultimately show ?thesis by (simp add: c_mod_def sgn_if)
next
  case False
  then have 1: "c_mod a 360 = - ((- a) mod 360)" by (simp add: c_mod_def)
  have 2: "0 \<le> (- a) mod 360" "(- a) mod 360 < 360" by simp_all
  have 3: "(360 - (- a) mod 360) mod 360 = a mod 360"
    by (metis minus_minus mod_minus_eq minus_mod_self1 mod_diff_right_eq diff_0)
  from 1 2 3 show ?thesis by (simp add: c_mod_def sgn_if)
qed

lemma normalize_headingDeg_mod: "normalize_headingDeg e = double_to_int e mod 360"
  by (simp add: normalize_headingDeg_def c_mod_360)

lemma left_right_wall: "left_wall n = right_wall n"
  by (simp add: left_wall_def right_wall_def)

lemma back_left_wall: "(fst (back_wall n), fst (snd (back_wall n))) = left_wall n"
  by (simp add: left_wall_def back_wall_def)

lemma left_wall_spec:
  "0 \<le> n \<Longrightarrow> n < 360 \<Longrightarrow>
   map_option wall_axis_sign (spec_classify (real_of_int n)) = Some (left_wall n)"
  by (simp add: left_wall_def spec_classify_def)

lemma spec_normalize_int: "spec_normalize (real_of_int k) = real_of_int (k mod 360)"
proof -
  have "\<lfloor>real_of_int k / 360\<rfloor> = k div 360"
    by (metis floor_divide_of_int_eq of_int_numeral)
  then show ?thesis
    by (simp add: spec_normalize_def minus_mult_div_eq_mod [symmetric] algebra_simps)
qed

lemmas cast_defs = double_to_int_def int_castable_def trunc_toward_zero_def

lemma double_to_int_of_int:
  "int_castable (real_of_int k) \<Longrightarrow> double_to_int (real_of_int k) = k"
  by (simp add: cast_defs)

text \<open>
  C1, as stated, at the effective heading 45.5: the three ladders of the source give
  the top wall (axis Y, sign +1), the partition of the specification gives the right
  wall (axis X, sign +1).
\<close>

theorem classification_45_5_counterexample:
  "back_wall (normalize_headingDeg 45.5) = (False, 1, 180) \<and>
   left_wall (normalize_headingDeg 45.5) = (False, 1) \<and>
   right_wall (normalize_headingDeg 45.5) = (False, 1) \<and>
   map_option wall_axis_sign (spec_classify (spec_normalize 45.5)) = Some (True, 1)"
  by (simp add: normalize_headingDeg_mod cast_defs back_wall_def left_wall_def
      right_wall_def spec_classify_def spec_normalize_def)

text \<open>
  C1, amended: let \<open>e\<close> be a real effective heading whose integer part fits an
  \<^verbatim>\<open>int\<close> (\<open>-2^31 - 1 < e < 2^31\<close>), so that the cast is defined. The source
  classifies the whole number of degrees \<open>n = ((int)e % 360 + 360) % 360\<close>, that
  is \<open>e\<close> with its fractional part discarded (truncation toward zero), reduced into
  \<open>0..359\<close>. On \<open>n\<close> the three ladders agree and assign exactly the wall of the
  specification's partition (axis and sign); for a whole-degree effective heading \<open>n\<close>
  is the normalized heading itself, so 45 is TOP and 46 is RIGHT. This \<open>n\<close> and this
  wall are the ones each operation computes when \<open>e\<close> is its effective heading: the
  robot heading plus 180 in \<^verbatim>\<open>resetPositionAndHeadingBack\<close>, plus 270 in
  \<^verbatim>\<open>resetPositionLeft\<close>, plus 90 in \<^verbatim>\<open>resetPositionRight\<close>.
\<close>

theorem classification_on_truncated_heading:
  assumes "int_castable e"
  shows
  "0 \<le> normalize_headingDeg e \<and> normalize_headingDeg e < 360 \<and>
   normalize_headingDeg e = trunc_toward_zero e mod 360 \<and>
   map_option wall_axis_sign (spec_classify (real_of_int (normalize_headingDeg e)))
     = Some (left_wall (normalize_headingDeg e)) \<and>
   right_wall (normalize_headingDeg e) = left_wall (normalize_headingDeg e) \<and>
   (fst (back_wall (normalize_headingDeg e)), fst (snd (back_wall (normalize_headingDeg e))))
     = left_wall (normalize_headingDeg e) \<and>
   (e = real_of_int k \<longrightarrow> real_of_int (normalize_headingDeg e) = spec_normalize e) \<and>
   (pose_theta pb + 180 = e \<longrightarrow>
      back_headingDeg (back_compute dl dr sp lo ro fh pb) = normalize_headingDeg e \<and>
      map_option wall_axis_sign (spec_classify (real_of_int (normalize_headingDeg e)))
        = Some (back_resettingX (back_compute dl dr sp lo ro fh pb),
                back_wallSign (back_compute dl dr sp lo ro fh pb))) \<and>
   (pose_theta pl + 270 = e \<longrightarrow>
      side_headingDeg (left_compute r off fh pl) = normalize_headingDeg e \<and>
      map_option wall_axis_sign (spec_classify (real_of_int (normalize_headingDeg e)))
        = Some (side_resettingX (left_compute r off fh pl),
                side_wallSign (left_compute r off fh pl))) \<and>
   (pose_theta pr + 90 = e \<longrightarrow>
      side_headingDeg (right_compute r off fh pr) = normalize_headingDeg e \<and>
      map_option wall_axis_sign (spec_classify (real_of_int (normalize_headingDeg e)))
        = Some (side_resettingX (right_compute r off fh pr),
                side_wallSign (right_compute r off fh pr)))"
proof -
  have r: "0 \<le> normalize_headingDeg e" "normalize_headingDeg e < 360"
    by (simp_all add: normalize_headingDeg_mod)
  note w = left_wall_spec [OF r]
  have t: "normalize_headingDeg e = trunc_toward_zero e mod 360"
    using assms by (simp add: normalize_headingDeg_mod double_to_int_def)
  have i: "real_of_int (normalize_headingDeg e) = spec_normalize e" if "e = real_of_int k"
    using assms that
    by (simp add: normalize_headingDeg_mod double_to_int_of_int spec_normalize_int)
  have b: "back_headingDeg (back_compute dl dr sp lo ro fh pb) = normalize_headingDeg e \<and>
      (back_resettingX (back_compute dl dr sp lo ro fh pb),
       back_wallSign (back_compute dl dr sp lo ro fh pb)) = left_wall (normalize_headingDeg e)"
    if "pose_theta pb + 180 = e"
    using that back_left_wall [of "normalize_headingDeg e"]
    by (simp add: back_compute_def Let_def case_prod_beta)
  have l: "side_headingDeg (left_compute r off fh pl) = normalize_headingDeg e \<and>
      (side_resettingX (left_compute r off fh pl),
       side_wallSign (left_compute r off fh pl)) = left_wall (normalize_headingDeg e)"
    if "pose_theta pl + 270 = e"
    using that by (simp add: left_compute_def Let_def case_prod_beta)
  have rr: "side_headingDeg (right_compute r off fh pr) = normalize_headingDeg e \<and>
      (side_resettingX (right_compute r off fh pr),
       side_wallSign (right_compute r off fh pr)) = left_wall (normalize_headingDeg e)"
    if "pose_theta pr + 90 = e"
    using that by (simp add: right_compute_def Let_def left_right_wall case_prod_beta)
  show ?thesis
    using r t w i b l rr by (simp add: left_right_wall back_left_wall)
qed

text \<open>
  The effective heading 45, reached by the back of a robot heading \<open>-135\<close>, by the
  left sensor of a robot heading \<open>-225\<close> and by the right sensor of a robot heading
  \<open>-45\<close>: the top wall each time.
\<close>

theorem classification_on_truncated_heading_witness:
  "int_castable 45 \<and> normalize_headingDeg 45 = 45 \<and>
   spec_classify (real_of_int (normalize_headingDeg 45)) = Some TOP \<and>
   real_of_int (normalize_headingDeg 45) = spec_normalize 45 \<and>
   back_headingDeg (back_compute 10 10 6 2 2 72 \<lparr>pose_x = 0, pose_y = 0, pose_theta = - 135\<rparr>) = 45 \<and>
   back_resettingX (back_compute 10 10 6 2 2 72 \<lparr>pose_x = 0, pose_y = 0, pose_theta = - 135\<rparr>) = False \<and>
   back_wallSign (back_compute 10 10 6 2 2 72 \<lparr>pose_x = 0, pose_y = 0, pose_theta = - 135\<rparr>) = 1 \<and>
   side_resettingX (left_compute 5 1 72 \<lparr>pose_x = 0, pose_y = 0, pose_theta = - 225\<rparr>) = False \<and>
   side_wallSign (left_compute 5 1 72 \<lparr>pose_x = 0, pose_y = 0, pose_theta = - 225\<rparr>) = 1 \<and>
   side_resettingX (right_compute 5 1 72 \<lparr>pose_x = 0, pose_y = 0, pose_theta = - 45\<rparr>) = False \<and>
   side_wallSign (right_compute 5 1 72 \<lparr>pose_x = 0, pose_y = 0, pose_theta = - 45\<rparr>) = 1"
  using classification_on_truncated_heading [of 45 45
      "\<lparr>pose_x = 0, pose_y = 0, pose_theta = - 135\<rparr>" 10 10 6 2 2 72
      "\<lparr>pose_x = 0, pose_y = 0, pose_theta = - 225\<rparr>" 5 1
      "\<lparr>pose_x = 0, pose_y = 0, pose_theta = - 45\<rparr>"]
  by (simp add: normalize_headingDeg_mod cast_defs spec_classify_def spec_normalize_def)

text \<open>
  C9: in \<^verbatim>\<open>resetPositionAndHeadingBack\<close> the ladder is entered with
  \<open>n = ((int)(pose.theta + 180) % 360 + 360) % 360\<close>, always in \<open>0..359\<close>, and the
  expected perpendicular heading fed into the heading correction is 180 when the back
  faces the top wall (\<open>n \<ge> 315\<close> or \<open>n \<le> 45\<close>, axis Y, sign +1), 270 when it faces the
  right wall (\<open>45 < n \<le> 135\<close>, axis X, sign +1), 0 when it faces the bottom wall
  (\<open>135 < n \<le> 225\<close>, axis Y, sign -1) and 90 when it faces the left wall
  (\<open>225 < n < 315\<close>, axis X, sign -1): for the wall \<open>w\<close> the partition gives to
  \<open>n\<close>, the back-facing direction of \<open>w\<close> plus 180, modulo 360.
\<close>

theorem expected_heading_of_classified_wall:
  "back_headingDeg (back_compute dl dr sp lo ro fh p) = normalize_headingDeg (pose_theta p + 180) \<and>
   0 \<le> normalize_headingDeg (pose_theta p + 180) \<and>
   normalize_headingDeg (pose_theta p + 180) < 360 \<and>
   (315 \<le> normalize_headingDeg (pose_theta p + 180) \<or>
    normalize_headingDeg (pose_theta p + 180) \<le> 45 \<longrightarrow>
      expected_perpendicular_heading (back_compute dl dr sp lo ro fh p) = 180 \<and>
      \<not> back_resettingX (back_compute dl dr sp lo ro fh p) \<and>
      back_wallSign (back_compute dl dr sp lo ro fh p) = 1) \<and>
   (45 < normalize_headingDeg (pose_theta p + 180) \<and>
    normalize_headingDeg (pose_theta p + 180) \<le> 135 \<longrightarrow>
      expected_perpendicular_heading (back_compute dl dr sp lo ro fh p) = 270 \<and>
      back_resettingX (back_compute dl dr sp lo ro fh p) \<and>
      back_wallSign (back_compute dl dr sp lo ro fh p) = 1) \<and>
   (135 < normalize_headingDeg (pose_theta p + 180) \<and>
    normalize_headingDeg (pose_theta p + 180) \<le> 225 \<longrightarrow>
      expected_perpendicular_heading (back_compute dl dr sp lo ro fh p) = 0 \<and>
      \<not> back_resettingX (back_compute dl dr sp lo ro fh p) \<and>
      back_wallSign (back_compute dl dr sp lo ro fh p) = - 1) \<and>
   (225 < normalize_headingDeg (pose_theta p + 180) \<and>
    normalize_headingDeg (pose_theta p + 180) < 315 \<longrightarrow>
      expected_perpendicular_heading (back_compute dl dr sp lo ro fh p) = 90 \<and>
      back_resettingX (back_compute dl dr sp lo ro fh p) \<and>
      back_wallSign (back_compute dl dr sp lo ro fh p) = - 1) \<and>
   (spec_classify (real_of_int (normalize_headingDeg (pose_theta p + 180))) = Some w \<longrightarrow>
      expected_perpendicular_heading (back_compute dl dr sp lo ro fh p)
        = spec_expected_heading w \<and>
      expected_perpendicular_heading (back_compute dl dr sp lo ro fh p)
        = real_of_int ((back_facing_direction w + 180) mod 360) \<and>
      (back_resettingX (back_compute dl dr sp lo ro fh p),
       back_wallSign (back_compute dl dr sp lo ro fh p)) = wall_axis_sign w)"
proof -
  define n where "n = normalize_headingDeg (pose_theta p + 180)"
  have r: "0 \<le> n" "n < 360" by (simp_all add: n_def normalize_headingDeg_mod)
  have l: "back_headingDeg (back_compute dl dr sp lo ro fh p) = n"
    "expected_perpendicular_heading (back_compute dl dr sp lo ro fh p) = snd (snd (back_wall n))"
    "back_resettingX (back_compute dl dr sp lo ro fh p) = fst (back_wall n)"
    "back_wallSign (back_compute dl dr sp lo ro fh p) = fst (snd (back_wall n))"
    by (simp_all add: back_compute_def Let_def n_def case_prod_beta)
  have br:
    "315 \<le> n \<or> n \<le> 45 \<longrightarrow>
       snd (snd (back_wall n)) = 180 \<and> \<not> fst (back_wall n) \<and> fst (snd (back_wall n)) = 1"
    "45 < n \<and> n \<le> 135 \<longrightarrow>
       snd (snd (back_wall n)) = 270 \<and> fst (back_wall n) \<and> fst (snd (back_wall n)) = 1"
    "135 < n \<and> n \<le> 225 \<longrightarrow>
       snd (snd (back_wall n)) = 0 \<and> \<not> fst (back_wall n) \<and> fst (snd (back_wall n)) = - 1"
    "225 < n \<and> n < 315 \<longrightarrow>
       snd (snd (back_wall n)) = 90 \<and> fst (back_wall n) \<and> fst (snd (back_wall n)) = - 1"
    by (simp_all add: back_wall_def)
  have s: "snd (snd (back_wall n)) = spec_expected_heading w \<and>
      snd (snd (back_wall n)) = real_of_int ((back_facing_direction w + 180) mod 360) \<and>
      (fst (back_wall n), fst (snd (back_wall n))) = wall_axis_sign w"
    if "spec_classify (real_of_int n) = Some w"
    using that r by (cases w) (auto simp add: spec_classify_def back_wall_def split: if_splits)
  show ?thesis
    unfolding n_def [symmetric] l using r br s by blast
qed

text \<open>
  Robot headings 180, 270, 0 and 90: the back faces the top, the right, the bottom and
  the left wall, and the expected headings are 180, 270, 0 and 90.
\<close>

theorem expected_heading_of_classified_wall_witness:
  "expected_perpendicular_heading
     (back_compute 10 10 6 2 2 72 \<lparr>pose_x = 0, pose_y = 0, pose_theta = 180\<rparr>) = 180 \<and>
   expected_perpendicular_heading
     (back_compute 10 10 6 2 2 72 \<lparr>pose_x = 0, pose_y = 0, pose_theta = 270\<rparr>) = 270 \<and>
   expected_perpendicular_heading
     (back_compute 10 10 6 2 2 72 \<lparr>pose_x = 0, pose_y = 0, pose_theta = 0\<rparr>) = 0 \<and>
   expected_perpendicular_heading
     (back_compute 10 10 6 2 2 72 \<lparr>pose_x = 0, pose_y = 0, pose_theta = 90\<rparr>) = 90 \<and>
   spec_classify (real_of_int (normalize_headingDeg (180 + 180))) = Some TOP \<and>
   spec_classify (real_of_int (normalize_headingDeg (270 + 180))) = Some RIGHT \<and>
   spec_classify (real_of_int (normalize_headingDeg (0 + 180))) = Some BOTTOM \<and>
   spec_classify (real_of_int (normalize_headingDeg (90 + 180))) = Some LEFT"
  using
    expected_heading_of_classified_wall
      [of 10 10 6 2 2 72 "\<lparr>pose_x = 0, pose_y = 0, pose_theta = 180\<rparr>" TOP]
    expected_heading_of_classified_wall
      [of 10 10 6 2 2 72 "\<lparr>pose_x = 0, pose_y = 0, pose_theta = 270\<rparr>" RIGHT]
    expected_heading_of_classified_wall
      [of 10 10 6 2 2 72 "\<lparr>pose_x = 0, pose_y = 0, pose_theta = 0\<rparr>" BOTTOM]
    expected_heading_of_classified_wall
      [of 10 10 6 2 2 72 "\<lparr>pose_x = 0, pose_y = 0, pose_theta = 90\<rparr>" LEFT]
  by (simp add: normalize_headingDeg_mod cast_defs spec_classify_def)

section \<open>The single-sensor resets\<close>

text \<open>
  C8: \<^verbatim>\<open>resetPositionLeft\<close> at robot heading \<open>h\<close> and \<^verbatim>\<open>resetPositionRight\<close> at
  robot heading \<open>h + 180\<close> compute the same locals (normalized heading, angle off
  perpendicular, corrected distance, axis, sign and corrected coordinate) from the same
  reading, mounting offset and field half.
\<close>

theorem left_is_right_turned_180:
  "left_compute r off fh p = right_compute r off fh (p\<lparr>pose_theta := pose_theta p + 180\<rparr>)"
  by (simp add: left_compute_def right_compute_def left_right_wall add.assoc)

lemmas reset_defs = getPose_def setPose_def printf_def Let_def

text \<open>
  C4: for a reading the validation accepts (which includes every reading of the
  plausibility window), \<^verbatim>\<open>resetPositionLeft\<close> and \<^verbatim>\<open>resetPositionRight\<close> call
  \<^verbatim>\<open>getPose\<close> once and \<^verbatim>\<open>setPose\<close> once; the heading written and the coordinate of
  the axis that is not classified are the values read, the coordinate of the
  classified axis is the corrected one.
\<close>

theorem single_sensor_reset_frame:
  "0 \<le> real_of_int sensor / 25.4 \<Longrightarrow> real_of_int sensor / 25.4 \<le> 200 \<Longrightarrow>
   (let l = left_compute (real_of_int sensor / 25.4) off fh (pose s);
        s' = resetPositionLeft sensor off fh s
    in pose_theta (pose s') = pose_theta (pose s) \<and>
       (if side_resettingX l
        then pose_x (pose s') = side_actualPos l \<and> pose_y (pose s') = pose_y (pose s)
        else pose_y (pose s') = side_actualPos l \<and> pose_x (pose s') = pose_x (pose s)) \<and>
       calls s' = calls s @
         [GetPose, SetPose (pose_x (pose s')) (pose_y (pose s')) (pose_theta (pose s))]) \<and>
   (let l = right_compute (real_of_int sensor / 25.4) off fh (pose s);
        s' = resetPositionRight sensor off fh s
    in pose_theta (pose s') = pose_theta (pose s) \<and>
       (if side_resettingX l
        then pose_x (pose s') = side_actualPos l \<and> pose_y (pose s') = pose_y (pose s)
        else pose_y (pose s') = side_actualPos l \<and> pose_x (pose s') = pose_x (pose s)) \<and>
       calls s' = calls s @
         [GetPose, SetPose (pose_x (pose s')) (pose_y (pose s')) (pose_theta (pose s))])"
  by (simp add: resetPositionLeft_def resetPositionRight_def reset_defs)

text \<open>
  At heading 90 with a reading of 127 mm (5 inches), offset 1 and field half 72: the
  right sensor faces the bottom wall and only Y becomes \<open>-66\<close>; the left sensor faces
  the top wall, X and the heading stay.
\<close>

theorem single_sensor_reset_frame_witness:
  "pose (resetPositionRight 127 1 72 (robot_at 11 22 90))
     = \<lparr>pose_x = 11, pose_y = - 66, pose_theta = 90\<rparr> \<and>
   pose_x (pose (resetPositionLeft 127 1 72 (robot_at 11 22 90))) = 11 \<and>
   pose_theta (pose (resetPositionLeft 127 1 72 (robot_at 11 22 90))) = 90"
  using single_sensor_reset_frame [of 127 1 72 "robot_at 11 22 90"]
  by (simp add: Let_def robot_at_def right_compute_def left_compute_def c_round_def M_PI_def
      normalize_headingDeg_mod cast_defs left_wall_def right_wall_def split: if_splits)

section \<open>Rejected readings\<close>

text \<open>
  C2, as stated, at the reading 0, which is outside the window \<open>(0, 200]\<close>: the
  validation \<^verbatim>\<open>sensorReading < 0 || sensorReading > 200\<close> accepts it, so
  \<^verbatim>\<open>resetPositionLeft\<close> calls \<^verbatim>\<open>setPose\<close>, changes the pose and prints nothing.
\<close>

theorem reading_zero_counterexample:
  "\<not> plausible (real_of_int 0 / 25.4) \<and>
   pose (resetPositionLeft 0 2 72 (robot_at 0 0 0))
     = \<lparr>pose_x = - 70, pose_y = 0, pose_theta = 0\<rparr> \<and>
   pose (robot_at 0 0 0) = \<lparr>pose_x = 0, pose_y = 0, pose_theta = 0\<rparr> \<and>
   calls (resetPositionLeft 0 2 72 (robot_at 0 0 0)) = [GetPose, SetPose (- 70) 0 0] \<and>
   printed (resetPositionLeft 0 2 72 (robot_at 0 0 0)) = []"
  by (simp add: plausible_def resetPositionLeft_def robot_at_def reset_defs left_compute_def
      c_round_def M_PI_def normalize_headingDeg_mod cast_defs left_wall_def)

text \<open>
  C2, amended: if a converted reading is below 0 or above 200, each of the three reset
  operations leaves the chassis as it was (the pose is unchanged and neither
  \<^verbatim>\<open>getPose\<close> nor \<^verbatim>\<open>setPose\<close> is called) and prints one diagnostic holding the
  converted value or values.
\<close>

theorem rejected_reading_is_no_op:
  "((real_of_int back_left / 25.4 < 0 \<or> real_of_int back_left / 25.4 > 200 \<or>
     real_of_int back_right / 25.4 < 0 \<or> real_of_int back_right / 25.4 > 200) \<longrightarrow>
      resetPositionAndHeadingBack back_left back_right sp lo ro fh s
        = s\<lparr>printed := printed s @
              [Invalid_back_sensor_readings (real_of_int back_left / 25.4)
                 (real_of_int back_right / 25.4)]\<rparr>) \<and>
   ((real_of_int sensor / 25.4 < 0 \<or> real_of_int sensor / 25.4 > 200) \<longrightarrow>
      resetPositionLeft sensor off fh s
        = s\<lparr>printed := printed s @
              [Invalid_left_sensor_reading (real_of_int sensor / 25.4)]\<rparr> \<and>
      resetPositionRight sensor off fh s
        = s\<lparr>printed := printed s @
              [Invalid_right_sensor_reading (real_of_int sensor / 25.4)]\<rparr>)"
  by (simp add: resetPositionAndHeadingBack_def resetPositionLeft_def resetPositionRight_def
      printf_def Let_def)

text \<open>Readings of \<open>-25\<close> mm (below 0) and of 5106 mm (a little over 201 inches).\<close>

theorem rejected_reading_is_no_op_witness:
  "resetPositionAndHeadingBack 254 (-25) 6 2 2 72 (robot_at 1 2 3)
     = (robot_at 1 2 3)\<lparr>printed := [Invalid_back_sensor_readings 10 (- 25 / 25.4)]\<rparr> \<and>
   resetPositionLeft 5106 2 72 (robot_at 1 2 3)
     = (robot_at 1 2 3)\<lparr>printed := [Invalid_left_sensor_reading (5106 / 25.4)]\<rparr> \<and>
   resetPositionRight 5106 2 72 (robot_at 1 2 3)
     = (robot_at 1 2 3)\<lparr>printed := [Invalid_right_sensor_reading (5106 / 25.4)]\<rparr> \<and>
   pose ((robot_at 1 2 3)\<lparr>printed := [Invalid_left_sensor_reading (5106 / 25.4)]\<rparr>)
     = pose (robot_at 1 2 3)"
  using rejected_reading_is_no_op [of 254 "-25" 6 2 2 72 "robot_at 1 2 3" 5106 2]
  by (simp add: robot_at_def)

section \<open>The dual-sensor reset\<close>

text \<open>
  C3, as stated: with prior heading 0, both readings 254 mm (10 inches), spacing 6,
  offsets 2 and field half 72, the back of the robot points to 180, the bottom wall:
  the function writes \<open>Y = -60\<close> and heading 0, not \<open>Y = 60\<close> and heading 180.
\<close>

theorem scenario_A_counterexample:
  "pose (resetPositionAndHeadingBack 254 254 6 2 2 72 (robot_at 0 0 0))
     = \<lparr>pose_x = 0, pose_y = - 60, pose_theta = 0\<rparr> \<and>
   pose_y (pose (resetPositionAndHeadingBack 254 254 6 2 2 72 (robot_at 0 0 0))) \<noteq> 60 \<and>
   pose_theta (pose (resetPositionAndHeadingBack 254 254 6 2 2 72 (robot_at 0 0 0))) \<noteq> 180"
  by (simp add: resetPositionAndHeadingBack_def robot_at_def reset_defs back_compute_def
     c_atan2_def M_PI_def normalize_headingDeg_mod cast_defs back_wall_def c_fmod_def)

text \<open>
  C3, amended: with these readings and parameters, prior heading 0 gives
  \<open>Y = -(72 - 12) = -60\<close> and heading 0, and prior heading 180 gives
  \<open>Y = +(72 - 12) = 60\<close> and heading 180; X is unchanged in both.
\<close>

theorem scenario_A_amended:
  "(pose_theta (pose s) = 0 \<longrightarrow>
      pose (resetPositionAndHeadingBack 254 254 6 2 2 72 s)
        = \<lparr>pose_x = pose_x (pose s), pose_y = - 60, pose_theta = 0\<rparr>) \<and>
   (pose_theta (pose s) = 180 \<longrightarrow>
      pose (resetPositionAndHeadingBack 254 254 6 2 2 72 s)
        = \<lparr>pose_x = pose_x (pose s), pose_y = 60, pose_theta = 180\<rparr>)"
  by (simp add: resetPositionAndHeadingBack_def reset_defs back_compute_def
     c_atan2_def M_PI_def normalize_headingDeg_mod cast_defs back_wall_def c_fmod_def)

theorem scenario_A_amended_witness:
  "pose (resetPositionAndHeadingBack 254 254 6 2 2 72 (robot_at 5 7 0))
        = \<lparr>pose_x = 5, pose_y = - 60, pose_theta = 0\<rparr> \<and>
   pose (resetPositionAndHeadingBack 254 254 6 2 2 72 (robot_at 5 7 180))
        = \<lparr>pose_x = 5, pose_y = 60, pose_theta = 180\<rparr>"
  using scenario_A_amended [of "robot_at 5 7 0"] scenario_A_amended [of "robot_at 5 7 180"]
  by (simp add: robot_at_def)

text \<open>
  C5: for equal readings that pass the validation (every pair of equal readings of the
  plausibility window does) and a positive spacing, the angle to the wall is 0, in
  radians and in degrees, and the heading written is the expected perpendicular heading
  of the classified wall, one of 0, 90, 180 and 270.
\<close>

theorem equal_readings_give_perpendicular_heading:
  "0 < sp \<Longrightarrow> back_left = back_right \<Longrightarrow>
   0 \<le> real_of_int back_left / 25.4 \<Longrightarrow> real_of_int back_left / 25.4 \<le> 200 \<Longrightarrow>
   (let l = back_compute (real_of_int back_left / 25.4) (real_of_int back_right / 25.4)
              sp lo ro fh (pose s)
    in angle_to_wall_rad l = 0 \<and> angle_to_wall_deg l = 0 \<and>
       corrected_heading l = expected_perpendicular_heading l \<and>
       expected_perpendicular_heading l \<in> {0, 90, 180, 270} \<and>
       pose_theta (pose (resetPositionAndHeadingBack back_left back_right sp lo ro fh s))
         = expected_perpendicular_heading l \<and>
       expected_perpendicular_heading l
         = spec_expected_heading (classified_wall (back_resettingX l, back_wallSign l)))"
  by (simp add: resetPositionAndHeadingBack_def reset_defs back_compute_def c_atan2_def
      back_wall_def c_fmod_def trunc_toward_zero_def split: prod.splits)

text \<open>At the drifted heading 93 the back faces the left wall, and the heading becomes 90.\<close>

theorem equal_readings_give_perpendicular_heading_witness:
  "pose_theta (pose (resetPositionAndHeadingBack 254 254 6 2 2 72 (robot_at 5 7 93))) = 90"
  using equal_readings_give_perpendicular_heading [of 6 254 254 2 2 72 "robot_at 5 7 93"]
  by (simp add: Let_def robot_at_def back_compute_def normalize_headingDeg_mod
      cast_defs back_wall_def)

section \<open>The polling loop of driveUntilDistance\<close>

subsection \<open>One iteration\<close>

lemma wrap32_id: "- 2147483648 \<le> v \<Longrightarrow> v < 2147483648 \<Longrightarrow> wrap32 v = v"
  by (simp add: wrap32_def)

lemma next_poll_simps:
  "elapsed (next_poll st) = wrap32 (elapsed st + 10)"
  "iterations (next_poll st) = iterations st"
  "reads (next_poll st) = reads st"
  "pose (ps_robot (next_poll st)) = pose (ps_robot st)"
  "calls (ps_robot (next_poll st)) = calls (ps_robot st)"
  "printed (ps_robot (next_poll st)) = printed (ps_robot st)"
  "clock (ps_robot (next_poll st)) = clock (ps_robot st) + 10"
  by (simp_all add: next_poll_def delay_def)

lemma poll_loop_exit:
  "\<not> elapsed st < timeout \<Longrightarrow> poll_loop sensor thr timeout st = Some (Timeout, st)"
  by (subst poll_loop.simps) simp

lemma poll_loop_break:
  "elapsed st < timeout \<Longrightarrow> sensor (reads st) \<noteq> PROS_ERR \<Longrightarrow>
   0 < real_of_int (sensor (reads st + 1)) / 25.4 \<and> real_of_int (sensor (reads st + 1)) / 25.4 \<le> thr \<Longrightarrow>
   poll_loop sensor thr timeout st
     = Some (Break, st\<lparr>iterations := iterations st + 1, reads := reads st + 2\<rparr>)"
  by (subst poll_loop.simps) (simp add: Let_def)

lemma poll_loop_continue:
  "elapsed st < timeout \<Longrightarrow> sensor (reads st) \<noteq> PROS_ERR \<Longrightarrow>
   \<not> (0 < real_of_int (sensor (reads st + 1)) / 25.4 \<and> real_of_int (sensor (reads st + 1)) / 25.4 \<le> thr) \<Longrightarrow>
   poll_loop sensor thr timeout st
     = poll_loop sensor thr timeout
         (next_poll (st\<lparr>iterations := iterations st + 1, reads := reads st + 2\<rparr>))"
  by (subst poll_loop.simps) (auto simp add: Let_def)

lemma poll_loop_no_reading:
  "elapsed st < timeout \<Longrightarrow> sensor (reads st) = PROS_ERR \<Longrightarrow>
   poll_loop sensor thr timeout st
     = poll_loop sensor thr timeout
         (next_poll (st\<lparr>iterations := iterations st + 1, reads := reads st + 1\<rparr>))"
  by (subst poll_loop.simps) (simp add: Let_def)

subsection \<open>What holds when the loop is left\<close>

lemma poll_post_next:
  "poll_post sensor thr timeout (next_poll st') r \<Longrightarrow> ps_robot st' = ps_robot st \<Longrightarrow>
   poll_post sensor thr timeout st r"
  by (simp add: poll_post_def next_poll_simps)

lemma poll_loop_frame:
  assumes "poll_loop sensor thr timeout st = Some r"
  shows "poll_post sensor thr timeout st r"
proof (rule poll_loop.raw_induct [where P = poll_post, OF _ assms])
  fix f sensor thr timeout st r
  assume IH: "\<And>sensor thr timeout st y. f sensor thr timeout st = Some y \<Longrightarrow> poll_post sensor thr timeout st y"
  assume body: "(if elapsed st < timeout then
        (let st1 = st\<lparr>iterations := iterations st + 1\<rparr>;
             first_get = sensor (reads st1);
             st2 = st1\<lparr>reads := reads st1 + 1\<rparr>
         in if first_get \<noteq> PROS_ERR then
              (let reading = real_of_int (sensor (reads st2)) / 25.4;
                   st3 = st2\<lparr>reads := reads st2 + 1\<rparr>
               in if reading > 0 \<and> reading \<le> thr then Some (Break, st3)
                  else f sensor thr timeout (next_poll st3))
            else f sensor thr timeout (next_poll st2))
      else Some (Timeout, st)) = Some r"
  show "poll_post sensor thr timeout st r"
  proof (cases "elapsed st < timeout")
    case False
    with body show ?thesis by (auto simp: poll_post_def)
  next
    case True
    note lt = this
    show ?thesis
    proof (cases "sensor (reads st) \<noteq> PROS_ERR")
      case False
      with lt body have "f sensor thr timeout
             (next_poll (st\<lparr>iterations := iterations st + 1, reads := reads st + 1\<rparr>)) = Some r"
        by (simp add: Let_def)
      from IH [OF this] show ?thesis by (rule poll_post_next) simp
    next
      case True
      note ok = this
      show ?thesis
      proof (cases "0 < real_of_int (sensor (reads st + 1)) / 25.4 \<and>
            real_of_int (sensor (reads st + 1)) / 25.4 \<le> thr")
        case True
        with lt ok body have "r = (Break, st\<lparr>iterations := iterations st + 1, reads := reads st + 2\<rparr>)"
          by (auto simp add: Let_def)
        with True ok lt show ?thesis by (simp add: poll_post_def)
      next
        case False
        with lt ok body have "f sensor thr timeout
             (next_poll (st\<lparr>iterations := iterations st + 1, reads := reads st + 2\<rparr>)) = Some r"
          by (auto simp add: Let_def)
        from IH [OF this] show ?thesis by (rule poll_post_next) simp
      qed
    qed
  qed
qed

lemma run_Some:
  assumes "driveUntilDistance_run sensor thr speed fwd timeout s = Some (how, st)"
  obtains st0 where
    "poll_loop sensor thr timeout
       \<lparr>ps_robot = tank (wrap32 ((if fwd then 1 else - 1) * speed))
                     (wrap32 ((if fwd then 1 else - 1) * speed)) True s,
        elapsed = 0, reads = 0, iterations = 0\<rparr> = Some (how, st0)"
    "st = st0\<lparr>ps_robot := tank 0 0 True (setBrakeMode E_MOTOR_BRAKE_HOLD (ps_robot st0))\<rparr>"
  using assms
  by (auto simp add: driveUntilDistance_run_def Let_def split: option.splits)

subsection \<open>Termination below the overflow of elapsed\<close>

lemma elapsed_small:
  assumes "elapsed st < timeout" "timeout \<le> 2147483640" "10 dvd elapsed st"
  shows "elapsed st \<le> 2147483630"
proof -
  from assms(3) obtain k where k: "elapsed st = 10 * k" by (auto simp: dvd_def)
  with assms(1,2) have "k \<le> 214748363" by linarith
  with k show ?thesis by linarith
qed

lemma rounds_step:
  assumes "(e::int) < timeout"
  shows "max 0 ((timeout - e + 9) div 10) = 1 + max 0 ((timeout - (e + 10) + 9) div 10)"
proof -
  have "(timeout - e + 9) div 10 = (timeout - (e + 10) + 9) div 10 + 1"
    by (simp add: algebra_simps)
  moreover have "0 \<le> (timeout - (e + 10) + 9) div 10"
    using assms by (simp add: pos_imp_zdiv_nonneg_iff)
  ultimately show ?thesis by simp
qed

lemma poll_bound_next:
  assumes "elapsed st < timeout" "timeout \<le> 2147483640" "0 \<le> elapsed st" "10 dvd elapsed st"
    and "iterations st' = iterations st + 1" "elapsed st' = elapsed st" "ps_robot st' = ps_robot st"
    and "poll_bound timeout (next_poll st') r"
  shows "poll_bound timeout st r"
proof -
  from assms(1,2,4) have "elapsed st \<le> 2147483630" by (rule elapsed_small)
  with assms(3) have e: "elapsed (next_poll st') = elapsed st + 10"
    by (simp add: next_poll_simps assms(6) wrap32_id)
  note m = rounds_step [OF assms(1)]
  from assms(8) assms(1) show ?thesis
    unfolding poll_bound_def e m by (auto simp add: next_poll_simps assms(5,7))
qed

lemma poll_loop_terminates:
  assumes "timeout \<le> 2147483640" "0 \<le> elapsed st" "10 dvd elapsed st"
  shows "\<exists>r. poll_loop sensor thr timeout st = Some r \<and> poll_bound timeout st r"
  using assms
proof (induction "nat (timeout - elapsed st)" arbitrary: st rule: less_induct)
  case less
  show ?case
  proof (cases "elapsed st < timeout")
    case False
    then show ?thesis using less.prems by (simp add: poll_loop_exit poll_bound_def max_def)
  next
    case True
    from True less.prems have small: "elapsed st \<le> 2147483630" by (simp add: elapsed_small)
    have nxt: "\<exists>r. poll_loop sensor thr timeout (next_poll st') = Some r \<and> poll_bound timeout st r"
      if st': "iterations st' = iterations st + 1" "elapsed st' = elapsed st" "ps_robot st' = ps_robot st"
      for st'
    proof -
      have e: "elapsed (next_poll st') = elapsed st + 10"
        using small less.prems(2) by (simp add: next_poll_simps st' wrap32_id)
      have "\<exists>r. poll_loop sensor thr timeout (next_poll st') = Some r \<and>
                poll_bound timeout (next_poll st') r"
        by (rule less.hyps) (use True less.prems e in simp_all)
      then show ?thesis
        using poll_bound_next [OF True less.prems st'] by blast
    qed
    show ?thesis
    proof (cases "sensor (reads st) \<noteq> PROS_ERR")
      case False
      then have "sensor (reads st) = PROS_ERR" by simp
      from poll_loop_no_reading [where sensor = sensor and thr = thr, OF True this]
           nxt [of "st\<lparr>iterations := iterations st + 1, reads := reads st + 1\<rparr>"]
      show ?thesis by simp
    next
      case ok: True
      show ?thesis
      proof (cases "0 < real_of_int (sensor (reads st + 1)) / 25.4 \<and>
                    real_of_int (sensor (reads st + 1)) / 25.4 \<le> thr")
        case False
        from poll_loop_continue [where sensor = sensor and thr = thr, OF True ok False]
             nxt [of "st\<lparr>iterations := iterations st + 1, reads := reads st + 2\<rparr>"]
        show ?thesis by simp
      next
        case stop: True
        have "poll_bound timeout st
                (Break, st\<lparr>iterations := iterations st + 1, reads := reads st + 2\<rparr>)"
          using less.prems by (simp add: poll_bound_def rounds_step [OF True])
        with poll_loop_break [where sensor = sensor and thr = thr, OF True ok stop] show ?thesis by simp
      qed
    qed
  qed
qed

lemma ceiling_tenth: "\<lceil>real_of_int t / 10\<rceil> = (t + 9) div 10"
proof -
  have "\<lceil>real_of_int t / real_of_int 10\<rceil> = - (- t div 10)"
    by (rule ceiling_divide_eq_div)
  also have "\<dots> = (t + 9) div 10" by presburger
  finally show ?thesis by simp
qed

subsection \<open>A loop that is never left\<close>

lemma even_wrap32: "even (wrap32 v) \<longleftrightarrow> even v"
proof -
  have "even ((v + 2147483648) mod 4294967296) \<longleftrightarrow> even (v + 2147483648)"
    by (rule dvd_mod_iff) simp
  then show ?thesis by (simp add: wrap32_def)
qed

lemma wrap32_le: "wrap32 v \<le> 2147483647"
proof -
  have "(v + 2147483648) mod 4294967296 < 4294967296" by simp
  then show ?thesis unfolding wrap32_def by linarith
qed

lemma keeps_polling_next:
  "keeps_polling sensor thr timeout st \<Longrightarrow> elapsed st' = elapsed st \<Longrightarrow>
   keeps_polling sensor thr timeout (next_poll st')"
  by (simp add: keeps_polling_def next_poll_simps even_wrap32 wrap32_le)

lemma poll_loop_forever:
  assumes "poll_loop sensor thr timeout st = Some r"
  shows "\<not> keeps_polling sensor thr timeout st"
proof (rule poll_loop.raw_induct
    [where P = "\<lambda>sensor thr timeout st r. \<not> keeps_polling sensor thr timeout st", OF _ assms])
  fix f :: "(nat \<Rightarrow> int) \<Rightarrow> real \<Rightarrow> int \<Rightarrow> poll_state \<Rightarrow> (loop_exit \<times> poll_state) option"
  fix sensor thr timeout st r
  assume IH: "\<And>sensor thr timeout st y. f sensor thr timeout st = Some y \<Longrightarrow>
                \<not> keeps_polling sensor thr timeout st"
  assume body: "(if elapsed st < timeout then
        (let st1 = st\<lparr>iterations := iterations st + 1\<rparr>;
             first_get = sensor (reads st1);
             st2 = st1\<lparr>reads := reads st1 + 1\<rparr>
         in if first_get \<noteq> PROS_ERR then
              (let reading = real_of_int (sensor (reads st2)) / 25.4;
                   st3 = st2\<lparr>reads := reads st2 + 1\<rparr>
               in if reading > 0 \<and> reading \<le> thr then Some (Break, st3)
                  else f sensor thr timeout (next_poll st3))
            else f sensor thr timeout (next_poll st2))
      else Some (Timeout, st)) = Some r"
  show "\<not> keeps_polling sensor thr timeout st"
  proof
    assume k: "keeps_polling sensor thr timeout st"
    then have "elapsed st \<noteq> 2147483647" by (auto simp: keeps_polling_def)
    with k have lt: "elapsed st < timeout" by (simp add: keeps_polling_def)
    from k have s: "sensor = steady_sensor 9999" "thr = 3" by (simp_all add: keeps_polling_def)
    from body lt have "f sensor thr timeout
        (next_poll (st\<lparr>iterations := iterations st + 1, reads := reads st + 2\<rparr>)) = Some r"
      by (simp add: Let_def s steady_sensor_def PROS_ERR_def)
    from IH [OF this] keeps_polling_next [OF k] show False by simp
  qed
qed

lemma poll_loop_never_exits:
  "poll_loop (steady_sensor 9999) 3 2147483647 \<lparr>ps_robot = s, elapsed = 0, reads = 0, iterations = 0\<rparr> = None"
proof (cases "poll_loop (steady_sensor 9999) 3 2147483647 \<lparr>ps_robot = s, elapsed = 0, reads = 0, iterations = 0\<rparr>")
  case None
  then show ?thesis .
next
  case (Some r)
  from poll_loop_forever [OF this] show ?thesis by (simp add: keeps_polling_def)
qed

subsection \<open>The claims on driveUntilDistance\<close>

text \<open>
  C6, as stated, fails at both ends of the range of \<^verbatim>\<open>timeout_ms\<close>. With the timeout
  \<open>-30\<close> the loop is left at once, after 0 iterations with \<open>elapsed = 0\<close>: that is
  more than \<open>ceil(-30 / 10) = -3\<close> iterations, and 30 ms away from the timeout. With
  the timeout 2147483647 and a sensor that always returns 9999 (no object),
  \<^verbatim>\<open>elapsed += 10\<close> wraps around before \<open>elapsed\<close> reaches the timeout, \<open>elapsed\<close>
  stays even, and the loop is never left.
\<close>

theorem timeout_range_counterexample:
  "driveUntilDistance_run (steady_sensor 9999) 3 60 True (- 30) (robot_at 0 0 0)
     = Some (Timeout, \<lparr>ps_robot = (robot_at 0 0 0)\<lparr>calls := [Tank 60 60 True, SetBrakeMode E_MOTOR_BRAKE_HOLD, Tank 0 0 True]\<rparr>,
                      elapsed = 0, reads = 0, iterations = 0\<rparr>) \<and>
   \<not> (0 \<le> \<lceil>real_of_int (- 30) / 10\<rceil>) \<and> \<not> (0 < - 30 + (10::int)) \<and>
   driveUntilDistance_run (steady_sensor 9999) 3 60 True 2147483647 (robot_at 0 0 0) = None"
  by (simp add: driveUntilDistance_run_def poll_loop_exit poll_loop_never_exits
        tank_def setBrakeMode_def wrap32_def robot_at_def)

text \<open>
  C6, amended: for every \<^verbatim>\<open>timeout_ms\<close> up to 2147483640 the function returns; the
  loop begins at most \<open>max(0, ceil(timeout_ms / 10))\<close> iterations and the clock has
  advanced by \<open>elapsed\<close>; when the timeout is not negative and no reading stops the
  loop, it is left after exactly \<open>ceil(timeout_ms / 10)\<close> iterations with
  \<open>timeout_ms \<le> elapsed < timeout_ms + 10\<close>. In every case the calls made on the
  chassis are the drive command, then the hold brake mode and the zero output.
\<close>

theorem driveUntilDistance_terminates:
  assumes "timeout_ms \<le> 2147483640"
  shows "\<exists>how st.
     driveUntilDistance_run sensor threshold_in speed forwards timeout_ms s = Some (how, st) \<and>
     driveUntilDistance sensor threshold_in speed forwards timeout_ms s = Some (ps_robot st) \<and>
     int (iterations st) \<le> max 0 \<lceil>real_of_int timeout_ms / 10\<rceil> \<and>
     clock (ps_robot st) = clock s + elapsed st \<and>
     (how = Timeout \<and> 0 \<le> timeout_ms \<longrightarrow>
        timeout_ms \<le> elapsed st \<and> elapsed st < timeout_ms + 10 \<and>
        int (iterations st) = \<lceil>real_of_int timeout_ms / 10\<rceil>) \<and>
     calls (ps_robot st) =
       calls s @ [Tank (wrap32 ((if forwards then 1 else - 1) * speed))
                    (wrap32 ((if forwards then 1 else - 1) * speed)) True,
                  SetBrakeMode E_MOTOR_BRAKE_HOLD, Tank 0 0 True]"
proof -
  define s1 where "s1 = tank (wrap32 ((if forwards then 1 else - 1) * speed))
                     (wrap32 ((if forwards then 1 else - 1) * speed)) True s"
  define st0 where "st0 = \<lparr>ps_robot = s1, elapsed = 0, reads = 0, iterations = 0\<rparr>"
  have "\<exists>r. poll_loop sensor threshold_in timeout_ms st0 = Some r \<and> poll_bound timeout_ms st0 r"
    by (rule poll_loop_terminates) (simp_all add: assms st0_def)
  then obtain how st' where r: "poll_loop sensor threshold_in timeout_ms st0 = Some (how, st')"
    and b: "poll_bound timeout_ms st0 (how, st')" by auto
  from poll_loop_frame [OF r] have f: "poll_post sensor threshold_in timeout_ms st0 (how, st')" .
  define st where "st = st'\<lparr>ps_robot := tank 0 0 True (setBrakeMode E_MOTOR_BRAKE_HOLD (ps_robot st'))\<rparr>"
  have run: "driveUntilDistance_run sensor threshold_in speed forwards timeout_ms s = Some (how, st)"
    using r by (simp add: driveUntilDistance_run_def Let_def st_def st0_def s1_def)
  have c: "\<lceil>real_of_int timeout_ms / 10\<rceil> = (timeout_ms + 9) div 10" by (rule ceiling_tenth)
  have it: "int (iterations st) \<le> max 0 \<lceil>real_of_int timeout_ms / 10\<rceil>"
    using b by (simp add: poll_bound_def st_def st0_def c)
  have ck: "clock (ps_robot st) = clock s + elapsed st"
    using b by (simp add: poll_bound_def st_def st0_def s1_def tank_def setBrakeMode_def)
  have cl: "calls (ps_robot st) =
       calls s @ [Tank (wrap32 ((if forwards then 1 else - 1) * speed))
                    (wrap32 ((if forwards then 1 else - 1) * speed)) True,
                  SetBrakeMode E_MOTOR_BRAKE_HOLD, Tank 0 0 True]"
    using f by (simp add: poll_post_def st_def st0_def s1_def tank_def setBrakeMode_def)
  have tm: "timeout_ms \<le> elapsed st \<and> elapsed st < timeout_ms + 10 \<and>
        int (iterations st) = \<lceil>real_of_int timeout_ms / 10\<rceil>"
    if "how = Timeout" "0 \<le> timeout_ms"
  proof -
    have "0 \<le> (timeout_ms + 9) div 10" using that(2) by (simp add: pos_imp_zdiv_nonneg_iff)
    then show ?thesis
      using b f that by (auto simp add: poll_bound_def poll_post_def st_def st0_def c)
  qed
  show ?thesis
    using run it ck cl tm by (auto simp add: driveUntilDistance_def)
qed

text \<open>A timeout of 30 ms and a sensor that never sees an object: three iterations.\<close>

theorem driveUntilDistance_terminates_witness:
  "driveUntilDistance_run (steady_sensor 9999) 3 60 True 30 (robot_at 0 0 0)
     = Some (Timeout,
         \<lparr>ps_robot = \<lparr>pose = \<lparr>pose_x = 0, pose_y = 0, pose_theta = 0\<rparr>,
                      calls = [Tank 60 60 True, SetBrakeMode E_MOTOR_BRAKE_HOLD, Tank 0 0 True],
                      printed = [], clock = 30\<rparr>,
          elapsed = 30, reads = 6, iterations = 3\<rparr>)"
  using driveUntilDistance_terminates [of 30 "steady_sensor 9999" 3 60 True "robot_at 0 0 0"]
  by (simp add: driveUntilDistance_run_def poll_loop.simps steady_sensor_def PROS_ERR_def
      next_poll_def delay_def tank_def setBrakeMode_def wrap32_def robot_at_def Let_def)

text \<open>
  C7, as stated, with the threshold 300 and a sensor that returns 6350 mm: the
  converted reading 250 is outside the plausibility window \<open>(0, 200]\<close>, and the loop
  is left by \<^verbatim>\<open>break\<close> in its first iteration.
\<close>

theorem implausible_reading_stops_counterexample:
  "driveUntilDistance_run (steady_sensor 6350) 300 60 True 3000 (robot_at 0 0 0)
     = Some (Break,
         \<lparr>ps_robot = \<lparr>pose = \<lparr>pose_x = 0, pose_y = 0, pose_theta = 0\<rparr>,
                      calls = [Tank 60 60 True, SetBrakeMode E_MOTOR_BRAKE_HOLD, Tank 0 0 True],
                      printed = [], clock = 0\<rparr>,
          elapsed = 0, reads = 2, iterations = 1\<rparr>) \<and>
   real_of_int (steady_sensor 6350 1) / 25.4 = 250 \<and> \<not> plausible 250"
  by (simp add: driveUntilDistance_run_def poll_loop.simps steady_sensor_def PROS_ERR_def
      tank_def setBrakeMode_def wrap32_def robot_at_def Let_def plausible_def)

text \<open>
  C7, amended: the loop is left by \<^verbatim>\<open>break\<close> only in an iteration whose first
  \<^verbatim>\<open>get()\<close> is not \<open>PROS_ERR\<close> and whose second \<^verbatim>\<open>get()\<close>, converted, is above 0
  and at most the threshold; the upper bound 200 of the plausibility window is not
  tested, but with a threshold of at most 200 the stopping reading is in the window and
  is not \<open>PROS_ERR\<close>. Otherwise the loop is left only with \<open>elapsed \<ge> timeout_ms\<close>:
  an iteration whose first \<^verbatim>\<open>get()\<close> is \<open>PROS_ERR\<close>, or whose reading is not in
  \<open>(0, threshold_in]\<close>, goes on to the next poll.
\<close>

theorem break_only_on_reading_within_threshold:
  "(driveUntilDistance_run sensor threshold_in speed forwards timeout_ms s = Some (how, st) \<longrightarrow>
      (how = Break \<longrightarrow>
         2 \<le> reads st \<and> sensor (reads st - 2) \<noteq> PROS_ERR \<and>
         0 < real_of_int (sensor (reads st - 1)) / 25.4 \<and>
         real_of_int (sensor (reads st - 1)) / 25.4 \<le> threshold_in \<and>
         elapsed st < timeout_ms \<and>
         (threshold_in \<le> 200 \<longrightarrow>
            plausible (real_of_int (sensor (reads st - 1)) / 25.4) \<and>
            sensor (reads st - 1) \<noteq> PROS_ERR)) \<and>
      (how = Timeout \<longrightarrow> timeout_ms \<le> elapsed st)) \<and>
   (elapsed p < timeout_ms \<and> sensor (reads p) = PROS_ERR \<longrightarrow>
      poll_loop sensor threshold_in timeout_ms p
        = poll_loop sensor threshold_in timeout_ms
            (next_poll (p\<lparr>iterations := iterations p + 1, reads := reads p + 1\<rparr>))) \<and>
   (elapsed p < timeout_ms \<and> sensor (reads p) \<noteq> PROS_ERR \<and>
    \<not> (0 < real_of_int (sensor (reads p + 1)) / 25.4 \<and>
       real_of_int (sensor (reads p + 1)) / 25.4 \<le> threshold_in) \<longrightarrow>
      poll_loop sensor threshold_in timeout_ms p
        = poll_loop sensor threshold_in timeout_ms
            (next_poll (p\<lparr>iterations := iterations p + 1, reads := reads p + 2\<rparr>)))"
proof -
  have a: "(how = Break \<longrightarrow>
         2 \<le> reads st \<and> sensor (reads st - 2) \<noteq> PROS_ERR \<and>
         0 < real_of_int (sensor (reads st - 1)) / 25.4 \<and>
         real_of_int (sensor (reads st - 1)) / 25.4 \<le> threshold_in \<and>
         elapsed st < timeout_ms \<and>
         (threshold_in \<le> 200 \<longrightarrow>
            plausible (real_of_int (sensor (reads st - 1)) / 25.4) \<and>
            sensor (reads st - 1) \<noteq> PROS_ERR)) \<and>
      (how = Timeout \<longrightarrow> timeout_ms \<le> elapsed st)"
    if run: "driveUntilDistance_run sensor threshold_in speed forwards timeout_ms s = Some (how, st)"
  proof -
    from run obtain st0 where
      r: "poll_loop sensor threshold_in timeout_ms
           \<lparr>ps_robot = tank (wrap32 ((if forwards then 1 else - 1) * speed))
                     (wrap32 ((if forwards then 1 else - 1) * speed)) True s,
            elapsed = 0, reads = 0, iterations = 0\<rparr> = Some (how, st0)"
      and st: "st = st0\<lparr>ps_robot := tank 0 0 True (setBrakeMode E_MOTOR_BRAKE_HOLD (ps_robot st0))\<rparr>"
      by (rule run_Some)
    from poll_loop_frame [OF r] have f: "poll_post sensor threshold_in timeout_ms
           \<lparr>ps_robot = tank (wrap32 ((if forwards then 1 else - 1) * speed))
                     (wrap32 ((if forwards then 1 else - 1) * speed)) True s,
            elapsed = 0, reads = 0, iterations = 0\<rparr> (how, st0)" .
    have e: "real_of_int PROS_ERR / 25.4 > 200" by (simp add: PROS_ERR_def)
    show ?thesis
    proof (intro conjI impI)
      assume "how = Timeout" with f show "timeout_ms \<le> elapsed st" by (simp add: poll_post_def st)
    next
      assume b: "how = Break"
      with f show "2 \<le> reads st" "sensor (reads st - 2) \<noteq> PROS_ERR"
        "0 < real_of_int (sensor (reads st - 1)) / 25.4"
        "real_of_int (sensor (reads st - 1)) / 25.4 \<le> threshold_in"
        "elapsed st < timeout_ms"
        by (simp_all add: poll_post_def st)
      assume t: "threshold_in \<le> 200"
      from b f have le: "real_of_int (sensor (reads st - 1)) / 25.4 \<le> threshold_in"
        and pos: "0 < real_of_int (sensor (reads st - 1)) / 25.4"
        by (simp_all add: poll_post_def st)
      from le t have le200: "real_of_int (sensor (reads st - 1)) / 25.4 \<le> 200" by linarith
      with pos show "plausible (real_of_int (sensor (reads st - 1)) / 25.4)"
        by (simp add: plausible_def)
      from le200 e show "sensor (reads st - 1) \<noteq> PROS_ERR" by auto
    qed
  qed
  show ?thesis
    using a poll_loop_no_reading [of p timeout_ms sensor threshold_in]
      poll_loop_continue [of p timeout_ms sensor threshold_in]
    by blast
qed

text \<open>A reading of 50 mm (under 2 inches) against the threshold 3.\<close>

theorem break_only_on_reading_within_threshold_witness:
  "driveUntilDistance_run (steady_sensor 50) 3 60 True 3000 (robot_at 0 0 0)
     = Some (Break,
         \<lparr>ps_robot = \<lparr>pose = \<lparr>pose_x = 0, pose_y = 0, pose_theta = 0\<rparr>,
                      calls = [Tank 60 60 True, SetBrakeMode E_MOTOR_BRAKE_HOLD, Tank 0 0 True],
                      printed = [], clock = 0\<rparr>,
          elapsed = 0, reads = 2, iterations = 1\<rparr>) \<and>
   plausible (real_of_int (steady_sensor 50 1) / 25.4) \<and> steady_sensor 50 1 \<noteq> PROS_ERR"
  using break_only_on_reading_within_threshold [of "steady_sensor 50" 3 60 True 3000 "robot_at 0 0 0" Break
      "\<lparr>ps_robot = \<lparr>pose = \<lparr>pose_x = 0, pose_y = 0, pose_theta = 0\<rparr>,
                      calls = [Tank 60 60 True, SetBrakeMode E_MOTOR_BRAKE_HOLD, Tank 0 0 True],
                      printed = [], clock = 0\<rparr>,
          elapsed = 0, reads = 2, iterations = 1\<rparr>"]
  by (simp add: driveUntilDistance_run_def poll_loop.simps steady_sensor_def PROS_ERR_def
      tank_def setBrakeMode_def wrap32_def robot_at_def Let_def plausible_def)

text \<open>
  C10: when \<^verbatim>\<open>driveUntilDistance\<close> returns, the pose held by the chassis is the one
  it held before; the function has called \<^verbatim>\<open>tank\<close>, \<^verbatim>\<open>setBrakeMode\<close> and
  \<^verbatim>\<open>tank\<close> on the chassis, and neither \<^verbatim>\<open>getPose\<close> nor \<^verbatim>\<open>setPose\<close>.
\<close>

theorem driveUntilDistance_keeps_pose:
  "driveUntilDistance sensor threshold_in speed forwards timeout_ms s = Some s' \<Longrightarrow>
   pose s' = pose s \<and> printed s' = printed s \<and>
   calls s' = calls s @ [Tank (wrap32 ((if forwards then 1 else - 1) * speed))
                           (wrap32 ((if forwards then 1 else - 1) * speed)) True,
                         SetBrakeMode E_MOTOR_BRAKE_HOLD, Tank 0 0 True] \<and>
   GetPose \<notin> set (drop (length (calls s)) (calls s')) \<and>
   (\<forall>a b c. SetPose a b c \<notin> set (drop (length (calls s)) (calls s')))"
proof -
  assume d: "driveUntilDistance sensor threshold_in speed forwards timeout_ms s = Some s'"
  then obtain how st where
    run: "driveUntilDistance_run sensor threshold_in speed forwards timeout_ms s = Some (how, st)"
    and s': "s' = ps_robot st"
    by (auto simp add: driveUntilDistance_def)
  from run obtain st0 where
      r: "poll_loop sensor threshold_in timeout_ms
           \<lparr>ps_robot = tank (wrap32 ((if forwards then 1 else - 1) * speed))
                     (wrap32 ((if forwards then 1 else - 1) * speed)) True s,
            elapsed = 0, reads = 0, iterations = 0\<rparr> = Some (how, st0)"
      and st: "st = st0\<lparr>ps_robot := tank 0 0 True (setBrakeMode E_MOTOR_BRAKE_HOLD (ps_robot st0))\<rparr>"
    by (rule run_Some)
  from poll_loop_frame [OF r] show ?thesis
    by (simp add: poll_post_def s' st tank_def setBrakeMode_def)
qed

text \<open>Driving backward at speed 50 until the sensor reads 50 mm.\<close>

theorem driveUntilDistance_keeps_pose_witness:
  "driveUntilDistance (steady_sensor 50) 3 50 False 3000 (robot_at 1 2 3)
     = Some ((robot_at 1 2 3)\<lparr>calls := [Tank (- 50) (- 50) True, SetBrakeMode E_MOTOR_BRAKE_HOLD, Tank 0 0 True]\<rparr>) \<and>
   pose ((robot_at 1 2 3)\<lparr>calls := [Tank (- 50) (- 50) True, SetBrakeMode E_MOTOR_BRAKE_HOLD, Tank 0 0 True]\<rparr>)
     = pose (robot_at 1 2 3)"
  using driveUntilDistance_keeps_pose [of "steady_sensor 50" 3 50 False 3000 "robot_at 1 2 3"
     "(robot_at 1 2 3)\<lparr>calls := [Tank (- 50) (- 50) True, SetBrakeMode E_MOTOR_BRAKE_HOLD, Tank 0 0 True]\<rparr>"]
  by (simp add: driveUntilDistance_def driveUntilDistance_run_def poll_loop.simps steady_sensor_def PROS_ERR_def
      tank_def setBrakeMode_def wrap32_def robot_at_def Let_def)

end
